theory Spec2Isabelle
  imports Complex_Main "HOL-Library.AList"
begin

section \<open>Python text primitives used by the feature parser\<close>

text \<open>
  The prediction handler of \<^verbatim>\<open>app.py\<close> works on Python \<^verbatim>\<open>str\<close> values with the
  built-ins \<^verbatim>\<open>strip\<close>, \<^verbatim>\<open>splitlines\<close>, \<^verbatim>\<open>split\<close>, \<^verbatim>\<open>in\<close> and \<^verbatim>\<open>float\<close>.
  A text is modelled as a list of code points below 256 (one \<open>char\<close> each), so the
  whitespace characters, line boundaries and decimal digits below are exactly the ones
  Python knows in that range.
\<close>

definition isspace :: "char \<Rightarrow> bool" where
  "isspace c = (c \<in> {CHR 0x09, CHR 0x0A, CHR 0x0B, CHR 0x0C, CHR 0x0D, CHR 0x1C, CHR 0x1D,
                      CHR 0x1E, CHR 0x1F, CHR 0x20, CHR 0x85, CHR 0xA0})"

definition str_lstrip :: "string \<Rightarrow> string" where
  "str_lstrip s = dropWhile isspace s"

definition str_rstrip :: "string \<Rightarrow> string" where
  "str_rstrip s = rev (dropWhile isspace (rev s))"

definition str_strip :: "string \<Rightarrow> string" where
  "str_strip s = str_rstrip (str_lstrip s)"

definition is_linebreak :: "char \<Rightarrow> bool" where
  "is_linebreak c = (c \<in> {CHR 0x0A, CHR 0x0B, CHR 0x0C, CHR 0x0D, CHR 0x1C, CHR 0x1D,
                          CHR 0x1E, CHR 0x85})"

text \<open>
  \<^verbatim>\<open>str.splitlines()\<close>: the text is cut at every line boundary, a carriage return
  directly followed by a line feed counts as one boundary, and a boundary at the very end
  opens no further line. \<open>acc\<close> holds the current line in reverse, \<open>cr\<close> says that the
  character just consumed was a carriage return.
\<close>

fun splitlines_from :: "string \<Rightarrow> bool \<Rightarrow> string \<Rightarrow> string list" where
  "splitlines_from acc cr [] = (if acc = [] then [] else [rev acc])"
| "splitlines_from acc cr (c # cs) =
     (if cr \<and> c = CHR 0x0A then splitlines_from acc False cs
      else if is_linebreak c then rev acc # splitlines_from [] (c = CHR 0x0D) cs
      else splitlines_from (c # acc) False cs)"

definition str_splitlines :: "string \<Rightarrow> string list" where
  "str_splitlines s = splitlines_from [] False s"

text \<open>
  \<^verbatim>\<open>s.split(sep, maxsplit)\<close> for a separator of one character: at most \<open>maxsplit\<close>
  cuts, taken from the left.
\<close>

fun str_split :: "char \<Rightarrow> nat \<Rightarrow> string \<Rightarrow> string list" where
  "str_split sep 0 s = [s]"
| "str_split sep (Suc n) s =
     (if sep \<in> set s
      then takeWhile (\<lambda>c. c \<noteq> sep) s # str_split sep n (tl (dropWhile (\<lambda>c. c \<noteq> sep) s))
      else [s])"

subsection \<open>The built-in float\<close>

text \<open>
  \<^verbatim>\<open>float(s)\<close> accepts, after trimming whitespace, an optional sign followed by
  \<^verbatim>\<open>inf\<close>, \<^verbatim>\<open>infinity\<close> or \<^verbatim>\<open>nan\<close> in any letter case, or by a decimal number:
  digits (single underscores allowed between digits) with an optional fraction and an
  optional exponent. Anything else raises \<^verbatim>\<open>ValueError\<close>, here \<open>None\<close>.
  A finite result is kept as the real number the literal denotes; the rounding of that
  number to a binary64 value (with it the overflow of a huge literal to infinity and the
  sign of zero) is not modelled.
\<close>

datatype pyfloat = Finite real | Infinity bool | NaN

definition is_digit :: "char \<Rightarrow> bool" where
  "is_digit c = (c \<in> set ''0123456789'')"

definition digit_val :: "char \<Rightarrow> nat" where
  "digit_val c = of_char c - 48"

fun digitpart :: "string \<Rightarrow> bool" where
  "digitpart [] = False"
| "digitpart [c] = is_digit c"
| "digitpart (c # d # cs) =
     (is_digit c \<and> (if d = CHR ''_'' then digitpart cs else digitpart (d # cs)))"

definition digits_val :: "string \<Rightarrow> nat" where
  "digits_val s = foldl (\<lambda>a c. 10 * a + digit_val c) 0 (filter is_digit s)"

definition ascii_lower :: "char \<Rightarrow> char" where
  "ascii_lower c = (if c \<in> set ''ABCDEFGHIJKLMNOPQRSTUVWXYZ''
                    then char_of (of_char c + (32::nat)) else c)"

definition float_exponent :: "string \<Rightarrow> int option" where
  "float_exponent s =
     (case s of
        [] \<Rightarrow> None
      | c # r \<Rightarrow>
          if c = CHR ''-'' then (if digitpart r then Some (- int (digits_val r)) else None)
          else if c = CHR ''+'' then (if digitpart r then Some (int (digits_val r)) else None)
          else (if digitpart s then Some (int (digits_val s)) else None))"

definition float_mantissa :: "string \<Rightarrow> real option" where
  "float_mantissa m =
     (let ip = takeWhile (\<lambda>c. c \<noteq> CHR ''.'') m;
          r = dropWhile (\<lambda>c. c \<noteq> CHR ''.'') m
      in if r = [] then (if digitpart ip then Some (real (digits_val ip)) else None)
         else let fp = tl r in
           if digitpart fp \<and> (ip = [] \<or> digitpart ip)
           then Some (real (digits_val ip)
                      + real (digits_val fp) / 10 ^ length (filter is_digit fp))
           else if fp = [] \<and> digitpart ip then Some (real (digits_val ip))
           else None)"

definition scale10 :: "real \<Rightarrow> int \<Rightarrow> real" where
  "scale10 x e = (if 0 \<le> e then x * 10 ^ nat e else x / 10 ^ nat (- e))"

definition float_number :: "string \<Rightarrow> real option" where
  "float_number s =
     (let m = takeWhile (\<lambda>c. c \<noteq> CHR ''e'' \<and> c \<noteq> CHR ''E'') s;
          r = dropWhile (\<lambda>c. c \<noteq> CHR ''e'' \<and> c \<noteq> CHR ''E'') s
      in case float_mantissa m of
           None \<Rightarrow> None
         | Some x \<Rightarrow>
             if r = [] then Some x
             else (case float_exponent (tl r) of
                     None \<Rightarrow> None
                   | Some e \<Rightarrow> Some (scale10 x e)))"

definition float_abs :: "bool \<Rightarrow> string \<Rightarrow> pyfloat option" where
  "float_abs neg s =
     (if map ascii_lower s = ''inf'' \<or> map ascii_lower s = ''infinity''
      then Some (Infinity neg)
      else if map ascii_lower s = ''nan'' then Some NaN
      else map_option (\<lambda>x. Finite (if neg then - x else x)) (float_number s))"

definition py_float :: "string \<Rightarrow> pyfloat option" where
  "py_float s0 =
     (case str_strip s0 of
        [] \<Rightarrow> None
      | c # r \<Rightarrow>
          if c = CHR ''-'' then float_abs True r
          else if c = CHR ''+'' then float_abs False r
          else float_abs False (c # r))"

section \<open>The feature parser of the prediction handler\<close>

text \<open>
  \<^verbatim>\<open>app.py\<close>, lines 639 to 675. A parsed value is the float that \<^verbatim>\<open>float(val)\<close>
  returned, or the trimmed text when \<^verbatim>\<open>float\<close> raised \<^verbatim>\<open>ValueError\<close>. The
  dictionary keeps Python's insertion order: assigning to a key that is present replaces
  its value in place, a new key is appended.
\<close>

datatype fval = Num pyfloat | Str string

type_synonym feature_dict = "(string \<times> fval) list"

datatype exn = ValueError

text \<open>
  One pass of the loop body. The tuple assignment \<^verbatim>\<open>key, val = line.split("=", 1)\<close>
  raises \<^verbatim>\<open>ValueError\<close> outside the \<^verbatim>\<open>try\<close> when the split does not give two parts.
\<close>

definition parse_line :: "feature_dict \<Rightarrow> string \<Rightarrow> exn + feature_dict" where
  "parse_line feature_dict line0 =
     (let line = str_strip line0 in
      if line = [] \<or> CHR ''='' \<notin> set line then Inr feature_dict
      else
        (case str_split (CHR ''='') 1 line of
           [key0, val0] \<Rightarrow>
             (let key = str_strip key0; val = str_strip val0 in
              case py_float val of
                Some num_val \<Rightarrow> Inr (AList.update key (Num num_val) feature_dict)
              | None \<Rightarrow> Inr (AList.update key (Str val) feature_dict))
         | _ \<Rightarrow> Inl ValueError))"

fun parse_lines :: "feature_dict \<Rightarrow> string list \<Rightarrow> exn + feature_dict" where
  "parse_lines feature_dict [] = Inr feature_dict"
| "parse_lines feature_dict (line # rest) =
     (case parse_line feature_dict line of
        Inl e \<Rightarrow> Inl e
      | Inr feature_dict' \<Rightarrow> parse_lines feature_dict' rest)"

definition parse_features :: "string \<Rightarrow> exn + feature_dict" where
  "parse_features user_kv_text = parse_lines [] (str_splitlines user_kv_text)"

text \<open>
  What the prediction tab puts on the page, in the order of the calls.
\<close>

datatype ui_msg =
    Markdown_open              \<comment> \<open>the opening div of the tab\<close>
  | Subheader_model            \<comment> \<open>"Model Performance and Lap Time Prediction"\<close>
  | Error_load string          \<comment> \<open>"Could not load lap time model: ..."\<close>
  | Warning_model_missing      \<comment> \<open>"Lap time model could not be loaded from ..."\<close>
  | Model_summary              \<comment> \<open>the comparison table, metrics and note, lines 483 to 520\<close>
  | Importances_heading        \<comment> \<open>"Top Feature Importances (LightGBM)"\<close>
  | Prediction_form            \<comment> \<open>the instructions and the text area, lines 561 to 637\<close>
  | Warning_no_input           \<comment> \<open>"Please provide at least one key=value pair."\<close>
  | Warning_no_pairs           \<comment> \<open>"No valid key=value pairs were parsed."\<close>
  | Write_parsed               \<comment> \<open>"Parsed features sent to the model:"\<close>
  | Dataframe feature_dict
  | Success real               \<comment> \<open>"Predicted Lap Time: ... seconds"\<close>
  | Error_predict string       \<comment> \<open>"Model could not predict with these inputs: ..."\<close>
  | Info_check_features        \<comment> \<open>"Check that the feature names and types match ..."\<close>
  | Importances_shown string   \<comment> \<open>whatever the feature importance block shows\<close>
  | Markdown_close             \<comment> \<open>the closing div of the tab\<close>

text \<open>
  The button handler, lines 639 to 675. \<open>predict\<close> stands for
  \<^verbatim>\<open>model_pipe.predict(input_df)[0]\<close> of the loaded pipeline: it returns the predicted
  lap time or raises (\<open>Inl\<close> carries the exception's text). The result lists what the
  page shows and every input the pipeline was called with.
\<close>

record handler_result =
  shown :: "ui_msg list"
  predict_calls :: "feature_dict list"

definition predict_laptime_btn ::
  "(feature_dict \<Rightarrow> string + real) \<Rightarrow> string \<Rightarrow> exn + handler_result" where
  "predict_laptime_btn predict user_kv_text =
     (if str_strip user_kv_text = []
      then Inr \<lparr>shown = [Warning_no_input], predict_calls = []\<rparr>
      else
        (case parse_features user_kv_text of
           Inl e \<Rightarrow> Inl e
         | Inr feature_dict \<Rightarrow>
             if feature_dict = []
             then Inr \<lparr>shown = [Warning_no_pairs], predict_calls = []\<rparr>
             else
               (case predict feature_dict of
                  Inr y_pred \<Rightarrow>
                    Inr \<lparr>shown = [Write_parsed, Dataframe feature_dict, Success y_pred],
                         predict_calls = [feature_dict]\<rparr>
                | Inl e \<Rightarrow>
                    Inr \<lparr>shown = [Write_parsed, Dataframe feature_dict, Error_predict e,
                                  Info_check_features],
                         predict_calls = [feature_dict]\<rparr>)))"

subsection \<open>Loading the pipeline and the prediction tab\<close>

text \<open>
  A loaded pipeline, as far as the tab uses it: what the feature importance block of
  lines 525 to 558 shows for it (the block catches its own exceptions), and its
  \<^verbatim>\<open>predict\<close> as the handler uses it.
\<close>

record pipeline =
  importance_view :: "ui_msg list"
  pipe_predict :: "feature_dict \<Rightarrow> string + real"

text \<open>
  \<^verbatim>\<open>load_laptime_model\<close>, lines 83 to 94. \<open>joblib_load\<close> is what
  \<^verbatim>\<open>joblib.load("models/laptime_best_model.pkl")\<close> does: it returns the pipeline or
  raises. The function returns what it shows and the model, \<open>None\<close> for Python's
  \<^verbatim>\<open>None\<close>.
\<close>

definition load_laptime_model :: "string + pipeline \<Rightarrow> ui_msg list \<times> pipeline option" where
  "load_laptime_model joblib_load =
     (case joblib_load of
        Inr model \<Rightarrow> ([], Some model)
      | Inl e \<Rightarrow> ([Error_load e], None))"

text \<open>
  The tab, lines 474 to 677. \<open>pressed\<close> says whether the predict button was pressed in
  this run of the script.
\<close>

definition tab6 :: "string + pipeline \<Rightarrow> bool \<Rightarrow> string \<Rightarrow> exn + handler_result" where
  "tab6 joblib_load pressed user_kv_text =
     (let (load_msgs, model_pipe) = load_laptime_model joblib_load in
      case model_pipe of
        None \<Rightarrow>
          Inr \<lparr>shown = [Markdown_open, Subheader_model] @ load_msgs
                        @ [Warning_model_missing, Markdown_close],
               predict_calls = []\<rparr>
      | Some m \<Rightarrow>
          (let before = [Markdown_open, Subheader_model] @ load_msgs
                        @ [Model_summary, Importances_heading] @ importance_view m
                        @ [Prediction_form]
           in if pressed
              then (case predict_laptime_btn (pipe_predict m) user_kv_text of
                      Inl e \<Rightarrow> Inl e
                    | Inr r \<Rightarrow> Inr \<lparr>shown = before @ shown r @ [Markdown_close],
                                     predict_calls = predict_calls r\<rparr>)
              else Inr \<lparr>shown = before @ [Markdown_close], predict_calls = []\<rparr>))"

text \<open>
  The six tabs are filled one after the other, lines 183 to 677; \<open>earlier\<close> is what
  tabs one to five have shown when the prediction tab starts.
\<close>

definition render_tabs ::
  "ui_msg list \<Rightarrow> string + pipeline \<Rightarrow> bool \<Rightarrow> string \<Rightarrow> exn + handler_result" where
  "render_tabs earlier joblib_load pressed user_kv_text =
     (case tab6 joblib_load pressed user_kv_text of
        Inl e \<Rightarrow> Inl e
      | Inr r \<Rightarrow> Inr \<lparr>shown = earlier @ shown r, predict_calls = predict_calls r\<rparr>)"

text \<open>
  Two notions used to state the properties of the parser: the key a line assigns to
  (none when the loop skips the line) and the value it assigns.
\<close>

definition line_key :: "string \<Rightarrow> string option" where
  "line_key line0 =
     (let line = str_strip line0 in
      if line = [] \<or> CHR ''='' \<notin> set line then None
      else Some (str_strip (takeWhile (\<lambda>c. c \<noteq> CHR ''='') line)))"

definition line_fval :: "string \<Rightarrow> fval" where
  "line_fval line0 =
     (let val = str_strip (tl (dropWhile (\<lambda>c. c \<noteq> CHR ''='') (str_strip line0))) in
      case py_float val of Some x \<Rightarrow> Num x | None \<Rightarrow> Str val)"

definition line_step :: "string \<Rightarrow> feature_dict \<Rightarrow> feature_dict" where
  "line_step l d =
     (case line_key l of None \<Rightarrow> d | Some k \<Rightarrow> AList.update k (line_fval l) d)"

text \<open>A pipeline call that always predicts ninety seconds, to run the handler on.\<close>

definition fixed_predict :: "feature_dict \<Rightarrow> string + real" where
  "fixed_predict feature_dict = Inr 90"

section \<open>The session cache check and the bulk refresh\<close>

text \<open>
  \<^verbatim>\<open>trial/try2.py\<close>. The cache path is built with an f-string, so the year is rendered
  in decimal as \<^verbatim>\<open>str\<close> does for an integer.
\<close>

fun nat_str :: "nat \<Rightarrow> string" where
  "nat_str n =
     (if n < 10 then [char_of (48 + n)]
      else nat_str (n div 10) @ [char_of (48 + n mod 10)])"

declare nat_str.simps [simp del]

definition int_str :: "int \<Rightarrow> string" where
  "int_str i = (if i < 0 then CHR ''-'' # nat_str (nat (- i)) else nat_str (nat i))"



text \<open>
  The part of the file system the script looks at: the paths that exist, each with the
  names of the entries directly under it. \<^verbatim>\<open>os.path.exists\<close> asks only whether the
  path is there.
\<close>

type_synonym filesystem = "(string \<times> string list) list"

definition os_path_exists :: "filesystem \<Rightarrow> string \<Rightarrow> bool" where
  "os_path_exists fs path = (path \<in> set (map fst fs))"

definition cache_path :: "int \<Rightarrow> string \<Rightarrow> string \<Rightarrow> string" where
  "cache_path year gp_name session_name =
     ''cache/'' @ int_str year @ ''/'' @ gp_name @ ''/'' @ session_name"

definition session_exists :: "filesystem \<Rightarrow> int \<Rightarrow> string \<Rightarrow> string \<Rightarrow> bool" where
  "session_exists fs year gp_name session_name =
     os_path_exists fs (cache_path year gp_name session_name)"

text \<open>
  Everything outside the script is a world \<open>'w\<close> that the calls into the timing library
  read and change. \<open>get_event_schedule\<close> gives the event names of a season or raises;
  \<open>load_session\<close> stands for \<^verbatim>\<open>get_session\<close>, \<^verbatim>\<open>session.load()\<close> and
  \<^verbatim>\<open>session.laps.empty\<close>: it raises (\<open>Inl\<close> with the exception's text) or says whether
  the lap table is empty.
\<close>

record 'w provider =
  files :: "'w \<Rightarrow> filesystem"
  get_event_schedule :: "'w \<Rightarrow> int \<Rightarrow> (string + string list) \<times> 'w"
  load_session :: "'w \<Rightarrow> int \<Rightarrow> string \<Rightarrow> string \<Rightarrow> (string + bool) \<times> 'w"

datatype log_line =
    Checking int string string          \<comment> \<open>"Checking {year} {gp_name} {session_name}..."\<close>
  | Data_loaded int string string       \<comment> \<open>"Data loaded for ..."\<close>
  | No_laps int string string           \<comment> \<open>"No laps data for ..."\<close>
  | Failed int string string string     \<comment> \<open>"Failed for ...: {e}"\<close>
  | Cached int string string            \<comment> \<open>"Cached: ..."\<close>
  | All_checked                         \<comment> \<open>"All sessions checked. Missing data downloaded."\<close>

text \<open>The whole body of \<^verbatim>\<open>fetch_session_data\<close> stands in one \<^verbatim>\<open>try\<close>.\<close>

definition fetch_session_data ::
  "'w provider \<Rightarrow> 'w \<Rightarrow> int \<Rightarrow> string \<Rightarrow> string \<Rightarrow> log_line list \<times> 'w" where
  "fetch_session_data p w year gp_name session_name =
     (case load_session p w year gp_name session_name of
        (Inr laps_empty, w') \<Rightarrow>
          (if \<not> laps_empty
           then ([Checking year gp_name session_name, Data_loaded year gp_name session_name], w')
           else ([Checking year gp_name session_name, No_laps year gp_name session_name], w'))
      | (Inl e, w') \<Rightarrow>
          ([Checking year gp_name session_name, Failed year gp_name session_name e], w'))"

text \<open>The three nested loops of the script, innermost first.\<close>

fun refresh_sessions ::
  "'w provider \<Rightarrow> 'w \<Rightarrow> int \<Rightarrow> string \<Rightarrow> string list \<Rightarrow> log_line list \<times> 'w" where
  "refresh_sessions p w season gp_name [] = ([], w)"
| "refresh_sessions p w season gp_name (session_name # rest) =
     (let (out, w') =
            (if \<not> session_exists (files p w) season gp_name session_name
             then fetch_session_data p w season gp_name session_name
             else ([Cached season gp_name session_name], w));
          (out', w'') = refresh_sessions p w' season gp_name rest
      in (out @ out', w''))"




text \<open>
  The status a printed line reports for a session, with the session it is about. The
  line "No laps data" is printed after a download that succeeded, so it counts as a
  fetch; "Checking" and the closing line report no status.
\<close>

datatype status = Status_cached | Status_fetched | Status_failed

fun status_of :: "log_line \<Rightarrow> ((int \<times> string \<times> string) \<times> status) option" where
  "status_of (Checking y g s) = None"
| "status_of (Data_loaded y g s) = Some ((y, g, s), Status_fetched)"
| "status_of (No_laps y g s) = Some ((y, g, s), Status_fetched)"
| "status_of (Failed y g s e) = Some ((y, g, s), Status_failed)"
| "status_of (Cached y g s) = Some ((y, g, s), Status_cached)"
| "status_of All_checked = None"

definition statuses :: "log_line list \<Rightarrow> ((int \<times> string \<times> string) \<times> status) list" where
  "statuses out = List.map_filter status_of out"

text \<open>
  A provider to run the loops on: the world is the file system itself, every season has
  the events A and B, loading qualifying of A times out, a sprint qualifying has no
  laps, and every load that succeeds leaves its cache directory behind.
\<close>

definition test_provider :: "filesystem provider" where
  "test_provider =
     \<lparr>files = (\<lambda>w. w),
      get_event_schedule = (\<lambda>w season. (Inr [''A'', ''B''], w)),
      load_session = (\<lambda>w y g s.
         if g = ''A'' \<and> s = ''Q'' then (Inl ''timeout'', w)
         else if s = ''SQ'' then (Inr True, (cache_path y g s, []) # w)
         else (Inr False, (cache_path y g s, [''laps'']) # w))\<rparr>"



section \<open>Properties of the feature parser\<close>

lemma takeWhile_first: "sep \<notin> set k \<Longrightarrow> takeWhile (\<lambda>c. c \<noteq> sep) (k @ sep # v) = k"
  by (induction k) auto

lemma dropWhile_first: "sep \<notin> set k \<Longrightarrow> dropWhile (\<lambda>c. c \<noteq> sep) (k @ sep # v) = sep # v"
  by (induction k) auto

lemma str_split_first:
  "sep \<notin> set k \<Longrightarrow> str_split sep 1 (k @ sep # v) = [k, v]"
  by (simp add: takeWhile_first dropWhile_first)

lemma first_sep_decomp:
  "sep \<in> set s \<Longrightarrow> \<exists>k v. s = k @ sep # v \<and> sep \<notin> set k"
  using split_list_first[of sep s] by blast

lemma parse_line_skip:
  "str_strip l = [] \<or> CHR ''='' \<notin> set (str_strip l) \<Longrightarrow> parse_line d l = Inr d"
  by (auto simp: parse_line_def)

lemma parse_line_pair:
  assumes "str_strip l = k @ CHR ''='' # v" "CHR ''='' \<notin> set k"
  shows "parse_line d l =
    Inr (AList.update (str_strip k)
          (case py_float (str_strip v) of Some x \<Rightarrow> Num x | None \<Rightarrow> Str (str_strip v)) d)"
  using assms by (simp add: parse_line_def Let_def takeWhile_first dropWhile_first split: option.splits)

lemma parse_line_key:
  "parse_line d l =
     Inr (case line_key l of None \<Rightarrow> d | Some k \<Rightarrow> AList.update k (line_fval l) d)"
proof (cases "str_strip l = [] \<or> CHR ''='' \<notin> set (str_strip l)")
  case True
  then show ?thesis by (auto simp: parse_line_skip line_key_def)
next
  case False
  then obtain k v where kv: "str_strip l = k @ CHR ''='' # v" "CHR ''='' \<notin> set k"
    using first_sep_decomp by fastforce
  show ?thesis
    using kv by (simp add: parse_line_pair[OF kv] line_key_def line_fval_def
        takeWhile_first dropWhile_first Let_def)
qed

lemma parse_lines_fold: "parse_lines d ls = Inr (fold line_step ls d)"
  by (induction ls arbitrary: d) (simp_all add: parse_line_key line_step_def)

lemma fold_line_step_other:
  "\<forall>l'\<in>set post. line_key l' \<noteq> Some k \<Longrightarrow> map_of (fold line_step post d) k = map_of d k"
proof (induction post arbitrary: d)
  case Nil
  then show ?case by simp
next
  case (Cons l post)
  have "map_of (line_step l d) k = map_of d k"
    using Cons.prems by (auto simp: line_step_def update_conv' split: option.splits)
  with Cons show ?case by simp
qed

lemma fold_line_step_skip:
  "\<forall>l\<in>set ls. line_key l = None \<Longrightarrow> fold line_step ls d = d"
  by (induction ls arbitrary: d) (simp_all add: line_step_def)

text \<open>
  Claim C3. The loop handles every line the same way: the line is trimmed; a line that
  is then empty or has no \<open>=\<close> leaves the dictionary as it is; any other trimmed line is
  \<open>k = v\<close> with no \<open>=\<close> in \<open>k\<close> (so it is cut at the first \<open>=\<close> and \<open>v\<close> may hold
  more of them), and the trimmed \<open>k\<close> is assigned the float that \<^verbatim>\<open>float\<close> reads from
  the trimmed \<open>v\<close>, or the trimmed \<open>v\<close> itself when \<^verbatim>\<open>float\<close> fails. The loop never
  raises. The lines \<^verbatim>\<open>driver=VER\<close>, \<^verbatim>\<open>lap_number=12\<close>, \<^verbatim>\<open>track_temp=41.5\<close>
  give driver VER, lap_number 12.0 and track_temp 41.5.
\<close>

theorem feature_parser_rule:
  "parse_lines d [] = Inr d
   \<and> (str_strip l = [] \<or> CHR ''='' \<notin> set (str_strip l)
        \<longrightarrow> parse_lines d (l # ls) = parse_lines d ls)
   \<and> (str_strip l = k @ CHR ''='' # v \<and> CHR ''='' \<notin> set k
        \<longrightarrow> parse_lines d (l # ls) =
            parse_lines (AList.update (str_strip k)
                           (case py_float (str_strip v) of
                              Some x \<Rightarrow> Num x
                            | None \<Rightarrow> Str (str_strip v)) d) ls)
   \<and> (\<exists>d'. parse_lines d ls = Inr d')
   \<and> parse_features ''driver=VER\<newline>lap_number=12\<newline>track_temp=41.5''
       = Inr [(''driver'', Str ''VER''), (''lap_number'', Num (Finite 12)),
              (''track_temp'', Num (Finite 41.5))]"
proof -
  have skip: "str_strip l = [] \<or> CHR ''='' \<notin> set (str_strip l)
        \<longrightarrow> parse_lines d (l # ls) = parse_lines d ls"
    by (auto simp: parse_line_skip)
  have pair: "str_strip l = k @ CHR ''='' # v \<and> CHR ''='' \<notin> set k
        \<longrightarrow> parse_lines d (l # ls) =
            parse_lines (AList.update (str_strip k)
                           (case py_float (str_strip v) of
                              Some x \<Rightarrow> Num x
                            | None \<Rightarrow> Str (str_strip v)) d) ls"
    by (auto simp: parse_line_pair)
  have total: "\<exists>d'. parse_lines d ls = Inr d'"
    by (simp add: parse_lines_fold)
  have example: "parse_features ''driver=VER\<newline>lap_number=12\<newline>track_temp=41.5''
       = Inr [(''driver'', Str ''VER''), (''lap_number'', Num (Finite 12)),
              (''track_temp'', Num (Finite 41.5))]"
    by code_simp
  show ?thesis using skip pair total example by simp
qed

theorem feature_parser_rule_witness:
  "parse_lines [] ['' k = a=b '', ''junk'', ''  ''] = Inr [(''k'', Str ''a=b'')]"
proof -
  have a: "str_strip '' k = a=b '' = ''k '' @ CHR ''='' # '' a=b''" by code_simp
  have b: "CHR ''='' \<notin> set ''k ''" by simp
  have c: "CHR ''='' \<notin> set (str_strip ''junk'')" by code_simp
  have e: "str_strip ''  '' = []" by code_simp
  have v: "AList.update (str_strip ''k '')
             (case py_float (str_strip '' a=b'') of Some x \<Rightarrow> Num x
              | None \<Rightarrow> Str (str_strip '' a=b'')) []
           = [(''k'', Str ''a=b'')]" by code_simp
  have "parse_lines [] ['' k = a=b '', ''junk'', ''  '']
        = parse_lines [(''k'', Str ''a=b'')] [''junk'', ''  '']"
    using feature_parser_rule[of "[]" "'' k = a=b ''" "[''junk'', ''  '']" "''k ''" "'' a=b''"] a b v
    by simp
  also have "\<dots> = parse_lines [(''k'', Str ''a=b'')] [''  '']"
    using feature_parser_rule[of "[(''k'', Str ''a=b'')]" "''junk''" "[''  '']"] c by simp
  also have "\<dots> = parse_lines [(''k'', Str ''a=b'')] []"
    using feature_parser_rule[of "[(''k'', Str ''a=b'')]" "''  ''" "[]"] e by simp
  also have "\<dots> = Inr [(''k'', Str ''a=b'')]"
    using feature_parser_rule[of "[(''k'', Str ''a=b'')]"] by simp
  finally show ?thesis .
qed

text \<open>
  Claim C4. When a line assigns to key \<open>k\<close> and no later line does, the parsed
  dictionary holds that line's value under \<open>k\<close>, whatever earlier lines assigned: the
  last occurrence of a key wins. The input \<^verbatim>\<open>a=1\<close>, \<^verbatim>\<open>a=2\<close> parses to the single
  entry a: 2.0.
\<close>

theorem last_occurrence_wins:
  "(line_key l = Some k \<and> (\<forall>l'\<in>set post. line_key l' \<noteq> Some k)
      \<longrightarrow> (\<exists>d'. parse_lines d (pre @ l # post) = Inr d' \<and> map_of d' k = Some (line_fval l)))
   \<and> parse_features ''a=1\<newline>a=2'' = Inr [(''a'', Num (Finite 2))]"
proof -
  have general: "\<exists>d'. parse_lines d (pre @ l # post) = Inr d' \<and> map_of d' k = Some (line_fval l)"
    if "line_key l = Some k" and "\<forall>l'\<in>set post. line_key l' \<noteq> Some k"
  proof -
    have "map_of (fold line_step (pre @ l # post) d) k = map_of (line_step l (fold line_step pre d)) k"
      using that(2) by (simp add: fold_line_step_other)
    also have "\<dots> = Some (line_fval l)"
      using that(1) by (simp add: line_step_def update_conv')
    finally show ?thesis by (simp add: parse_lines_fold)
  qed
  have example: "parse_features ''a=1\<newline>a=2'' = Inr [(''a'', Num (Finite 2))]"
    by code_simp
  show ?thesis using general example by blast
qed

theorem last_occurrence_wins_witness:
  "\<exists>d'. parse_lines [] [''a=1'', ''b=7'', ''a=2'', ''b=x''] = Inr d'
        \<and> map_of d' ''a'' = Some (Num (Finite 2))"
proof -
  have k: "line_key ''a=2'' = Some ''a''" by code_simp
  have p: "\<forall>l'\<in>set [''b=x'']. line_key l' \<noteq> Some ''a''" by code_simp
  have v: "line_fval ''a=2'' = Num (Finite 2)" by code_simp
  show ?thesis
    using last_occurrence_wins[of "''a=2''" "''a''" "[''b=x'']" "[]" "[''a=1'', ''b=7'']"] k p v
    by simp
qed

text \<open>
  Claim C5, as amended. When no line of the input is a key=value pair (the input may be
  empty or blank), parsing raises nothing and gives the empty dictionary; the handler
  returns normally, shows one warning and nothing else, and never calls the pipeline:
  "Please provide at least one key=value pair." for a blank input, "No valid key=value
  pairs were parsed." otherwise.
\<close>

theorem empty_feature_set_warns:
  "(\<forall>l\<in>set (str_splitlines user_kv_text). line_key l = None) \<longrightarrow>
     parse_features user_kv_text = Inr []
     \<and> predict_laptime_btn predict user_kv_text =
         Inr \<lparr>shown = [if str_strip user_kv_text = [] then Warning_no_input
                        else Warning_no_pairs],
              predict_calls = []\<rparr>"
  by (simp add: predict_laptime_btn_def parse_features_def parse_lines_fold fold_line_step_skip)

theorem empty_feature_set_warns_witness:
  "parse_features '' \<newline>  \<newline>'' = Inr []
   \<and> predict_laptime_btn fixed_predict '' \<newline>  \<newline>''
       = Inr \<lparr>shown = [Warning_no_input], predict_calls = []\<rparr>
   \<and> parse_features ''driver VER\<newline>\<newline>12'' = Inr []
   \<and> predict_laptime_btn fixed_predict ''driver VER\<newline>\<newline>12''
       = Inr \<lparr>shown = [Warning_no_pairs], predict_calls = []\<rparr>"
proof -
  have a: "\<forall>l\<in>set (str_splitlines '' \<newline>  \<newline>''). line_key l = None" by code_simp
  have b: "\<forall>l\<in>set (str_splitlines ''driver VER\<newline>\<newline>12''). line_key l = None" by code_simp
  have sa: "str_strip '' \<newline>  \<newline>'' = []" by code_simp
  have sb: "str_strip ''driver VER\<newline>\<newline>12'' \<noteq> []" by code_simp
  show ?thesis
    using empty_feature_set_warns[of "'' \<newline>  \<newline>''" fixed_predict]
      empty_feature_set_warns[of "''driver VER\<newline>\<newline>12''" fixed_predict] a b sa sb
    by simp
qed

text \<open>
  Against the claim as first stated: the code has no error for an empty feature set.
  For the input \<^verbatim>\<open>junk\<close> the parser returns the empty dictionary and raises nothing,
  and the handler returns normally with a warning.
\<close>

theorem empty_feature_set_is_no_error:
  "parse_features ''junk'' = Inr []
   \<and> parse_features ''junk'' \<noteq> Inl ValueError
   \<and> predict_laptime_btn fixed_predict ''junk''
       = Inr \<lparr>shown = [Warning_no_pairs], predict_calls = []\<rparr>"
proof -
  have a: "parse_features ''junk'' = Inr []" by code_simp
  have b: "predict_laptime_btn fixed_predict ''junk''
       = Inr \<lparr>shown = [Warning_no_pairs], predict_calls = []\<rparr>" by code_simp
  show ?thesis using a b by simp
qed

text \<open>
  Claim C10. A line with \<open>=\<close> whose key is empty after trimming is not skipped: it
  assigns to the empty key. \<^verbatim>\<open>=5\<close> gives the entry "": 5.0, and \<^verbatim>\<open>  = x\<close> gives
  "": "x".
\<close>

theorem empty_key_is_kept:
  "(str_strip l = k @ CHR ''='' # v \<and> CHR ''='' \<notin> set k \<and> str_strip k = []
      \<longrightarrow> parse_line d l =
            Inr (AList.update [] (case py_float (str_strip v) of
                                    Some x \<Rightarrow> Num x
                                  | None \<Rightarrow> Str (str_strip v)) d))
   \<and> parse_features ''=5'' = Inr [([], Num (Finite 5))]
   \<and> parse_features ''  = x'' = Inr [([], Str ''x'')]"
proof -
  have a: "parse_features ''=5'' = Inr [([], Num (Finite 5))]" by code_simp
  have b: "parse_features ''  = x'' = Inr [([], Str ''x'')]" by code_simp
  show ?thesis using a b by (auto simp: parse_line_pair)
qed

theorem empty_key_is_kept_witness:
  "parse_line [(''a'', Str ''b'')] ''  =5'' = Inr [(''a'', Str ''b''), ([], Num (Finite 5))]"
proof -
  have a: "str_strip ''  =5'' = [] @ CHR ''='' # ''5''" by code_simp
  have v: "AList.update [] (case py_float (str_strip ''5'') of Some x \<Rightarrow> Num x
              | None \<Rightarrow> Str (str_strip ''5'')) [(''a'', Str ''b'')]
           = [(''a'', Str ''b''), ([], Num (Finite 5))]" by code_simp
  have e: "str_strip [] = []" by code_simp
  show ?thesis
    using empty_key_is_kept[of "''  =5''" "[]" "''5''" "[(''a'', Str ''b'')]"] a v e by simp
qed

section \<open>Properties of the bulk refresh\<close>







lemma statuses_closing: "statuses (out @ [All_checked]) = statuses out"
  by (simp add: statuses_def List.map_filter_def)





text \<open>
  Claim C1. \<^verbatim>\<open>session_exists\<close> answers from the presence of the path alone: it is true
  for a cache directory that holds nothing, and the loop then prints "Cached" and does
  not load the session. The docstring says the function checks that telemetry and laps
  are cached.
\<close>

theorem session_exists_empty_directory:
  "session_exists ((cache_path year gp_name session_name, []) # fs) year gp_name session_name
   \<and> session_exists [(''cache/2023/Bahrain Grand Prix/Q'', [])] 2023 ''Bahrain Grand Prix'' ''Q''
   \<and> refresh_sessions test_provider [(''cache/2023/B/Q'', [])] 2023 ''B'' [''Q'']
       = ([Cached 2023 ''B'' ''Q''], [(''cache/2023/B/Q'', [])])"
proof -
  have a: "session_exists ((cache_path year gp_name session_name, []) # fs) year gp_name session_name"
    by (simp add: session_exists_def os_path_exists_def)
  have b: "session_exists [(''cache/2023/Bahrain Grand Prix/Q'', [])] 2023 ''Bahrain Grand Prix'' ''Q''"
    by code_simp
  have c: "refresh_sessions test_provider [(''cache/2023/B/Q'', [])] 2023 ''B'' [''Q'']
       = ([Cached 2023 ''B'' ''Q''], [(''cache/2023/B/Q'', [])])"
    by code_simp
  show ?thesis using a b c by simp
qed

section \<open>Properties of the model loader\<close>

text \<open>
  Claim C9. When loading the pipeline raises, \<^verbatim>\<open>load_laptime_model\<close> shows the error
  and returns \<^verbatim>\<open>None\<close>; the prediction tab then shows its warning and nothing of the
  prediction feature, calls no \<^verbatim>\<open>predict\<close> even if the button was pressed, and raises
  nothing, so what the other tabs have shown stays on the page.
\<close>

theorem model_load_failure_is_not_fatal:
  "load_laptime_model (Inl e) = ([Error_load e], None)
   \<and> tab6 (Inl e) pressed user_kv_text =
       Inr \<lparr>shown = [Markdown_open, Subheader_model, Error_load e, Warning_model_missing,
                     Markdown_close],
            predict_calls = []\<rparr>
   \<and> render_tabs earlier (Inl e) pressed user_kv_text =
       Inr \<lparr>shown = earlier @ [Markdown_open, Subheader_model, Error_load e,
                                Warning_model_missing, Markdown_close],
            predict_calls = []\<rparr>"
  by (simp add: load_laptime_model_def tab6_def render_tabs_def)

end
